theory Spec2Isabelle
  imports Complex_Main "HOL-Library.Sublist"
begin

section \<open>Elevation behavior (kivymd/uix/behaviors/elevation.py)\<close>

text \<open>
  Python numbers (the values of Kivy's numeric properties) are modelled as exact
  rationals: every finite float is a rational, and \<open>float(x)\<close> is the identity
  on them. Rounding of IEEE arithmetic is not part of the model.

  A widget attribute that may be absent (\<open>hasattr(self, "rect")\<close>) is an
  \<open>option\<close>; reading an absent attribute raises \<open>AttributeError\<close>, indexing
  a list out of range raises \<open>IndexError\<close>. A raised exception is the left
  summand of the result.
\<close>

datatype error = AttributeError | IndexError

definition then_do :: "error + 'a \<Rightarrow> ('a \<Rightarrow> error + 'b) \<Rightarrow> error + 'b" where
  "then_do r f = (case r of Inl e \<Rightarrow> Inl e | Inr x \<Rightarrow> f x)"

text \<open>A shader uniform is a scalar or a list of numbers.\<close>

datatype uniform = UFloat rat | UList "rat list"

text \<open>
  \<open>RenderContext\<close>: the flag \<open>use_parent_modelview\<close> (False when the context
  is created with \<open>RenderContext(use_parent_projection=True)\<close>) and the named
  uniforms written by \<open>self.context[name] = value\<close>.
\<close>

record render_context =
  use_parent_modelview :: bool
  uniforms :: "string \<rightharpoonup> uniform"

text \<open>\<open>RoundedRectangle\<close>: the shadow quad.\<close>

record rounded_rectangle =
  rect_pos :: "rat \<times> rat"
  rect_size :: "rat \<times> rat"

text \<open>
  A callback handed to \<open>Clock.schedule_once\<close>, with the value its closure
  captured.
\<close>

datatype task =
    T_on_shadow_color "rat list"
  | T_on_shadow_radius "rat list"
  | T_on_shadow_softness rat
  | T_on_elevation rat

type_synonym obj_id = nat

text \<open>
  The widget. \<open>u_elevation\<close>, \<open>u_shadow_color\<close>, \<open>u_transition_ref\<close> and
  \<open>u_has_relative_position\<close> are the attributes \<open>_elevation\<close>,
  \<open>_shadow_color\<close>, \<open>_transition_ref\<close> and \<open>_has_relative_position\<close>;
  \<open>rcontext\<close> is the attribute \<open>context\<close>; \<open>size_w\<close> is \<open>size\<close>.
  The two-component vectors \<open>pos\<close>, \<open>size\<close> and \<open>shadow_offset\<close> are pairs.
  \<open>to_window\<close> is the coordinate transform of the host toolkit, which depends on
  the widget's ancestors. \<open>clock_queue\<close> holds the callbacks scheduled with
  \<open>Clock.schedule_once\<close> that have not run yet; \<open>window_on_draw_bound\<close> and
  \<open>screen_events_bound\<close> record the bindings made by
  \<open>check_for_relative_behavior\<close>.
\<close>

record elevation_widget =
  elevation :: rat
  shadow_radius :: "rat list"
  shadow_softness :: rat
  shadow_offset :: "rat \<times> rat"
  shadow_color :: "rat list"
  u_transition_ref :: "obj_id option"
  u_has_relative_position :: bool
  u_elevation :: rat
  u_shadow_color :: "rat list"
  pos :: "rat \<times> rat"
  size_w :: "rat \<times> rat"
  opacity :: rat
  disabled :: bool
  to_window :: "rat \<times> rat \<Rightarrow> rat \<times> rat"
  rcontext :: "render_context option"
  rect :: "rounded_rectangle option"
  clock_queue :: "task list"
  window_on_draw_bound :: bool
  screen_events_bound :: bool

text \<open>
  A widget before \<open>__init__\<close> has created the render context: the class-level
  defaults of \<open>CommonElevationBehavior\<close> (lines 389-594) and the defaults of
  the toolkit's widget base class for \<open>pos\<close>, \<open>size\<close>, \<open>opacity\<close> and
  \<open>disabled\<close>.
\<close>

definition class_defaults :: "(rat \<times> rat \<Rightarrow> rat \<times> rat) \<Rightarrow> elevation_widget" where
  "class_defaults tw =
     \<lparr> elevation = 0, shadow_radius = [0, 0, 0, 0], shadow_softness = 12,
       shadow_offset = (0, 2), shadow_color = [0, 0, 0, 6 / 10],
       u_transition_ref = None, u_has_relative_position = False,
       u_elevation = 0, u_shadow_color = [0, 0, 0, 0],
       pos = (0, 0), size_w = (100, 100), opacity = 1, disabled = False,
       to_window = tw, rcontext = None, rect = None, clock_queue = [],
       window_on_draw_bound = False, screen_events_bound = False \<rparr>"

text \<open>
  \<open>__init__\<close>: after the base constructor, create the render context and the
  shadow quad at the widget's position and size. (The \<open>after_init\<close> callback
  it schedules loads the shader and is not modelled.)
\<close>

definition init :: "elevation_widget \<Rightarrow> elevation_widget" where
  "init s = s\<lparr> rcontext := Some \<lparr> use_parent_modelview = False, uniforms = Map.empty \<rparr>,
               rect := Some \<lparr> rect_pos = pos s, rect_size = size_w s \<rparr> \<rparr>"

definition window_pos :: "elevation_widget \<Rightarrow> rat \<times> rat" where
  "window_pos s = to_window s (pos s)"

text \<open>\<open>self.context[name] = value\<close>.\<close>

definition context_set :: "string \<Rightarrow> uniform \<Rightarrow> elevation_widget \<Rightarrow> error + elevation_widget" where
  "context_set name v s =
     (case rcontext s of
        None \<Rightarrow> Inl AttributeError
      | Some c \<Rightarrow> Inr (s\<lparr> rcontext := Some (c\<lparr> uniforms := (uniforms c)(name \<mapsto> v) \<rparr>) \<rparr>))"


definition pair_list :: "rat \<times> rat \<Rightarrow> rat list" where
  "pair_list p = [fst p, snd p]"

definition update_resolution :: "elevation_widget \<Rightarrow> error + elevation_widget" where
  "update_resolution s =
     (case rcontext s of
        None \<Rightarrow> Inl AttributeError
      | Some c \<Rightarrow>
          (case rect s of
             None \<Rightarrow> Inl AttributeError
           | Some r \<Rightarrow>
               context_set ''resolution''
                 (UList (pair_list (rect_size r) @ pair_list (rect_pos r))) s))"

text \<open>
  The coordinate frame \<open>on_pos\<close> positions the shadow from: the condition
  \<open>self._has_relative_position and not self.context.use_parent_modelview\<close>
  (lines 748-754). \<open>and\<close> is short-circuit, so the context is read only when
  the flag is set.
\<close>

datatype frame = LOCAL | ABSOLUTE

definition coordinate_frame :: "elevation_widget \<Rightarrow> error + frame" where
  "coordinate_frame s =
     (if u_has_relative_position s then
        (case rcontext s of
           None \<Rightarrow> Inl AttributeError
         | Some c \<Rightarrow> Inr (if use_parent_modelview c then LOCAL else ABSOLUTE))
      else Inr LOCAL)"

definition frame_pos :: "frame \<Rightarrow> elevation_widget \<Rightarrow> rat \<times> rat" where
  "frame_pos f s = (case f of ABSOLUTE \<Rightarrow> window_pos s | LOCAL \<Rightarrow> pos s)"

definition on_pos :: "elevation_widget \<Rightarrow> error + elevation_widget" where
  "on_pos s =
     (case rect s of
        None \<Rightarrow> Inr s
      | Some r \<Rightarrow>
          then_do (coordinate_frame s) (\<lambda>f.
            let p = frame_pos f s;
                r' = r\<lparr> rect_pos :=
                       (fst p - ((fst (rect_size r) - fst (size_w s)) / 2) - fst (shadow_offset s),
                        snd p - ((snd (rect_size r) - snd (size_w s)) / 2) - snd (shadow_offset s)) \<rparr>;
                s1 = s\<lparr> rect := Some r' \<rparr>
            in then_do (context_set ''mouse'' (UList [fst (rect_pos r'), 0, 0, 0]) s1) (\<lambda>s2.
               then_do (context_set ''pos'' (UList (pair_list (rect_pos r'))) s2)
                 update_resolution)))"

definition on_size :: "elevation_widget \<Rightarrow> error + elevation_widget" where
  "on_size s =
     (case rect s of
        None \<Rightarrow> Inr s
      | Some r \<Rightarrow>
          (let r' = r\<lparr> rect_size :=
                       (fst (size_w s) + (u_elevation s * shadow_softness s / 2),
                        snd (size_w s) + (u_elevation s * shadow_softness s / 2)) \<rparr>;
               s1 = s\<lparr> rect := Some r' \<rparr>
           in then_do (context_set ''mouse'' (UList [fst (rect_pos r'), 0, 0, 0]) s1) (\<lambda>s2.
              then_do (context_set ''size'' (UList (pair_list (rect_size r'))) s2)
                update_resolution)))"



text \<open>
  The handlers that only schedule a callback (lines 699-730): the callback is
  appended to the clock's queue with the value it captured.
\<close>

definition schedule_once :: "task \<Rightarrow> elevation_widget \<Rightarrow> elevation_widget" where
  "schedule_once t s = s\<lparr> clock_queue := clock_queue s @ [t] \<rparr>"

definition on_shadow_color :: "rat list \<Rightarrow> elevation_widget \<Rightarrow> elevation_widget" where
  "on_shadow_color v s = schedule_once (T_on_shadow_color v) s"

definition on_shadow_radius :: "rat list \<Rightarrow> elevation_widget \<Rightarrow> elevation_widget" where
  "on_shadow_radius v s = schedule_once (T_on_shadow_radius v) s"

definition on_shadow_softness :: "rat \<Rightarrow> elevation_widget \<Rightarrow> elevation_widget" where
  "on_shadow_softness v s = schedule_once (T_on_shadow_softness v) s"

definition on_elevation :: "rat \<Rightarrow> elevation_widget \<Rightarrow> elevation_widget" where
  "on_elevation v s = schedule_once (T_on_elevation v) s"

text \<open>\<open>hide_elevation\<close> (lines 806-816).\<close>

definition hide_elevation :: "bool \<Rightarrow> elevation_widget \<Rightarrow> error + elevation_widget" where
  "hide_elevation hide s =
     (let s1 = (if hide
                then s\<lparr> u_elevation := - elevation s, u_shadow_color := [0, 0, 0, 0] \<rparr>
                else s\<lparr> u_elevation := elevation s,
                        u_shadow_color := butlast (shadow_color s) @ [opacity s] \<rparr>);
          s2 = on_shadow_color (u_shadow_color s1) s1
      in then_do (on_size s2) on_pos)"

text \<open>
  \<open>on_disabled\<close> (lines 799-804), called by the toolkit with the new value once
  the \<open>disabled\<close> property holds it.
\<close>

definition on_disabled :: "bool \<Rightarrow> elevation_widget \<Rightarrow> error + elevation_widget" where
  "on_disabled v s =
     (if v then hide_elevation True (s\<lparr> u_elevation := 0 \<rparr>)
      else hide_elevation False s)"

text \<open>
  \<open>widget.disabled = v\<close>: the toolkit stores the value and calls
  \<open>on_disabled\<close> when it changed.
\<close>

definition set_disabled :: "bool \<Rightarrow> elevation_widget \<Rightarrow> error + elevation_widget" where
  "set_disabled v s = (if disabled s = v then Inr s else on_disabled v (s\<lparr> disabled := v \<rparr>))"

text \<open>
  The bodies of the scheduled callbacks, run by the clock on the next frame.
  The callbacks of \<open>on_shadow_radius\<close>, \<open>on_shadow_softness\<close> and
  \<open>on_elevation\<close> test \<open>hasattr(self, "context")\<close>; the callback of
  \<open>on_shadow_color\<close> (lines 700-704) does not.
\<close>

definition run_task :: "task \<Rightarrow> elevation_widget \<Rightarrow> error + elevation_widget" where
  "run_task t s =
     (case t of
        T_on_shadow_color v \<Rightarrow>
          (let s1 = s\<lparr> u_shadow_color :=
                        butlast v @ [if \<not> disabled s then opacity s else 0] \<rparr>
           in context_set ''shadow_color'' (UList (u_shadow_color s1)) s1)
      | T_on_shadow_radius v \<Rightarrow>
          (if rcontext s = None then Inr s
           else context_set ''shadow_radius'' (UList v) s)
      | T_on_shadow_softness v \<Rightarrow>
          (if rcontext s = None then Inr s
           else context_set ''shadow_softness'' (UFloat v) s)
      | T_on_elevation v \<Rightarrow>
          (if rcontext s = None then Inr s
           else hide_elevation (v \<le> 0 \<or> disabled s) (s\<lparr> u_elevation := v \<rparr>)))"

text \<open>One clock tick: the callbacks scheduled so far run in order.\<close>

fun run_tasks :: "task list \<Rightarrow> elevation_widget \<Rightarrow> error + elevation_widget" where
  "run_tasks [] s = Inr s"
| "run_tasks (t # ts) s = then_do (run_task t s) (run_tasks ts)"

definition clock_tick :: "elevation_widget \<Rightarrow> error + elevation_widget" where
  "clock_tick s = run_tasks (clock_queue s) (s\<lparr> clock_queue := [] \<rparr>)"

text \<open>
  Assigning a toolkit property stores the value and calls the property's
  \<open>on_<name>\<close> handler, but only when the value differs from the stored one.
\<close>

definition set_shadow_radius :: "rat list \<Rightarrow> elevation_widget \<Rightarrow> elevation_widget" where
  "set_shadow_radius v s =
     (if shadow_radius s = v then s else on_shadow_radius v (s\<lparr> shadow_radius := v \<rparr>))"

text \<open>
  \<open>on_radius\<close> (lines 796-797). The four subscripts are evaluated before the
  assignment; each raises \<open>IndexError\<close> on a list that is too short.
\<close>

definition subscript :: "rat list \<Rightarrow> nat \<Rightarrow> error + rat" where
  "subscript xs i = (if i < length xs then Inr (xs ! i) else Inl IndexError)"

definition on_radius :: "rat list \<Rightarrow> elevation_widget \<Rightarrow> error + elevation_widget" where
  "on_radius v s =
     then_do (subscript v 1) (\<lambda>v1.
     then_do (subscript v 2) (\<lambda>v2.
     then_do (subscript v 0) (\<lambda>v0.
     then_do (subscript v 3) (\<lambda>v3.
       Inr (set_shadow_radius [v1, v2, v0, v3] s)))))"

subsection \<open>Relative-position correction\<close>









subsection \<open>The \<open>elevation\<close> property\<close>

text \<open>
  Modelled from the spec: the setter of the host toolkit's
  \<open>BoundedNumericProperty\<close>, which is not among the repository's sources. The
  declaration \<open>BoundedNumericProperty(0, min=0, errorvalue=0)\<close> (line 389)
  gives the bounds and the error value; the spec says that a value outside the
  bounds is not an error but is replaced by the property's own validation. A
  value that fails the bound check is replaced by the error value when one is
  declared, and is a \<open>ValueError\<close> otherwise.
\<close>

record bounded_numeric_property =
  bnp_default :: rat
  bnp_min :: "rat option"
  bnp_max :: "rat option"
  bnp_errorvalue :: "rat option"

datatype property_error = ValueError

text \<open>
  Modelled from the spec: the bound check of the property's validation, with
  the bounds of the declaration.
\<close>

definition bounded_check :: "bounded_numeric_property \<Rightarrow> rat \<Rightarrow> bool" where
  "bounded_check p v =
     ((case bnp_min p of None \<Rightarrow> True | Some lo \<Rightarrow> lo \<le> v)
      \<and> (case bnp_max p of None \<Rightarrow> True | Some hi \<Rightarrow> v \<le> hi))"

text \<open>
  Modelled from the spec: the value the property stores on assignment. A value
  that passes the check is stored; one that fails it is replaced by the
  declared error value instead of raising.
\<close>

definition bounded_set :: "bounded_numeric_property \<Rightarrow> rat \<Rightarrow> property_error + rat" where
  "bounded_set p v =
     (if bounded_check p v then Inr v
      else (case bnp_errorvalue p of
              None \<Rightarrow> Inl ValueError
            | Some e \<Rightarrow> (if bounded_check p e then Inr e else Inl ValueError)))"

text \<open>Line 389.\<close>

definition elevation_property :: bounded_numeric_property where
  "elevation_property =
     \<lparr> bnp_default = 0, bnp_min = Some 0, bnp_max = None, bnp_errorvalue = Some 0 \<rparr>"

text \<open>\<open>widget.elevation = v\<close>.\<close>

definition set_elevation :: "rat \<Rightarrow> elevation_widget \<Rightarrow> property_error + elevation_widget" where
  "set_elevation v s =
     (case bounded_set elevation_property v of
        Inl e \<Rightarrow> Inl e
      | Inr v' \<Rightarrow>
          Inr (if elevation s = v' then s else on_elevation v' (s\<lparr> elevation := v' \<rparr>)))"

section \<open>Chip (kivymd/uix/chip/chip.py)\<close>

text \<open>
  An \<open>Animation\<close> object: the target values of the animated properties, the
  name of the easing curve \<open>t\<close> and the duration \<open>d\<close> in seconds.
\<close>

datatype anim_value = Scalar rat | Color "rat list"

record animation =
  anim_props :: "(string \<times> anim_value) list"
  anim_t :: string
  anim_d :: rat

text \<open>The children of the chip that animations are started on (\<open>self.ids\<close>).\<close>

datatype chip_child = icon_left_box | check_icon

text \<open>
  The chip: the properties \<open>icon_left\<close> and \<open>active\<close>, and the animations
  started so far, each with the child it was started on, oldest first.
\<close>

record chip =
  icon_left :: string
  active :: bool
  started :: "(animation \<times> chip_child) list"

record motion_event =
  touch_pos :: "rat \<times> rat"

text \<open>\<open>do_animation_check\<close> (lines 321-335).\<close>

definition do_animation_check :: "rat list \<Rightarrow> rat \<Rightarrow> chip \<Rightarrow> chip" where
  "do_animation_check md_bg_color scale_value s =
     s\<lparr> started := started s @
          [(\<lparr> anim_props = [(''md_bg_color'', Color md_bg_color)],
              anim_t = ''out_sine'', anim_d = 1 / 10 \<rparr>, icon_left_box),
           (\<lparr> anim_props = [(''scale_value_x'', Scalar scale_value),
                             (''scale_value_y'', Scalar scale_value),
                             (''scale_value_z'', Scalar scale_value)],
              anim_t = ''out_sine'', anim_d = 1 / 10 \<rparr>, check_icon)] \<rparr>"

text \<open>\<open>on_active\<close> (lines 315-319).\<close>

definition on_active :: "bool \<Rightarrow> chip \<Rightarrow> chip" where
  "on_active active_value s =
     (if active_value then do_animation_check [0, 0, 0, 4 / 10] 1 s
      else do_animation_check [0, 0, 0, 0] 0 s)"

text \<open>\<open>self.active = v\<close>: the handler runs only when the value changes.\<close>

definition set_active :: "bool \<Rightarrow> chip \<Rightarrow> chip" where
  "set_active v s = (if active s = v then s else on_active v (s\<lparr> active := v \<rparr>))"

text \<open>\<open>on_long_touch\<close> (lines 308-313).\<close>

definition on_long_touch :: "chip \<Rightarrow> chip" where
  "on_long_touch s =
     (if icon_left s = [] then s
      else if active s then s
      else set_active (if \<not> active s then True else False) s)"

text \<open>
  \<open>on_touch_down\<close> (lines 337-341). \<open>collide_point\<close> is the hit test of the
  widget base class and \<open>super_on_touch_down\<close> the handler of the next class
  in the method resolution order, which returns a value and the chip as it
  leaves it. The result \<open>None\<close> is Python's \<open>None\<close>.
\<close>

definition on_touch_down ::
  "(chip \<Rightarrow> rat \<times> rat \<Rightarrow> bool) \<Rightarrow> (motion_event \<Rightarrow> chip \<Rightarrow> bool option \<times> chip)
     \<Rightarrow> motion_event \<Rightarrow> chip \<Rightarrow> bool option \<times> chip" where
  "on_touch_down collide_point super_on_touch_down touch s =
     (if collide_point s (touch_pos touch) then
        (let s1 = (if active s then set_active False s else s)
         in super_on_touch_down touch s1)
      else (None, s))"

section \<open>Example widgets\<close>

text \<open>
  A card constructed with \<open>elevation=4\<close> in a layout that does not move its
  children (\<open>to_window\<close> is the identity); the handler of the assignment has
  scheduled its callback.
\<close>

definition elevated_card :: elevation_widget where
  "elevated_card = on_elevation 4 (init ((class_defaults (\<lambda>p. p))\<lparr> elevation := 4 \<rparr>))"





text \<open>The shadow quad's size and the effective elevation of a result.\<close>

definition quad_size :: "error + elevation_widget \<Rightarrow> (rat \<times> rat) option" where
  "quad_size res = (case res of Inl e \<Rightarrow> None | Inr s \<Rightarrow> map_option rect_size (rect s))"


text \<open>
  Two chips, a hit test for a chip of 100 by 32 at the origin, and a
  superclass handler that accepts every touch.
\<close>

definition plain_chip :: chip where
  "plain_chip = \<lparr> icon_left = [], active = False, started = [] \<rparr>"

definition marked_chip :: chip where
  "marked_chip = \<lparr> icon_left = ''map-marker'', active = True, started = [] \<rparr>"

definition chip_bounds :: "chip \<Rightarrow> rat \<times> rat \<Rightarrow> bool" where
  "chip_bounds s p = (0 \<le> fst p \<and> fst p \<le> 100 \<and> 0 \<le> snd p \<and> snd p \<le> 32)"

definition button_press :: "motion_event \<Rightarrow> chip \<Rightarrow> bool option \<times> chip" where
  "button_press touch s = (Some True, s)"

section \<open>Helper lemmas\<close>

lemmas elev_defs = on_pos_def on_size_def then_do_def context_set_def update_resolution_def
  coordinate_frame_def frame_pos_def window_pos_def pair_list_def hide_elevation_def
  on_shadow_color_def schedule_once_def on_disabled_def

lemmas tick_defs = init_def class_defaults_def clock_tick_def run_task_def on_elevation_def









text \<open>
  The guarded handlers do nothing on a widget that has no render context or no
  shadow quad yet: the callbacks of \<open>on_shadow_radius\<close>, \<open>on_shadow_softness\<close>
  and \<open>on_elevation\<close> return at once, and so do \<open>on_pos\<close> and \<open>on_size\<close>.
\<close>

lemma guarded_callbacks_noop:
  assumes "rcontext s = None" and "clock_queue s = []"
  shows "clock_tick (on_shadow_radius vs s) = Inr s"
    and "clock_tick (on_shadow_softness v s) = Inr s"
    and "clock_tick (on_elevation v s) = Inr s"
  using assms
  by (simp_all add: clock_tick_def on_shadow_radius_def on_shadow_softness_def on_elevation_def
      schedule_once_def run_task_def then_do_def)

lemma guarded_geometry_noop:
  assumes "rect s = None"
  shows "on_pos s = Inr s" and "on_size s = Inr s"
  using assms by (simp_all add: on_pos_def on_size_def)

lemma elevated_card_initialised:
  "rect elevated_card = Some \<lparr> rect_pos = (0, 0), rect_size = (100, 100) \<rparr>"
  "rcontext elevated_card = Some \<lparr> use_parent_modelview = False, uniforms = Map.empty \<rparr>"
  "\<not> disabled elevated_card"
  by (simp_all add: elevated_card_def on_elevation_def schedule_once_def init_def
      class_defaults_def)


section \<open>Properties of the elevation behavior\<close>







text \<open>
  C3, as the code has it. On an initialised widget, after a size change the
  shadow quad's size is the host's size plus \<open>_elevation * shadow_softness / 2\<close>
  in both axes, where \<open>_elevation\<close> is the effective elevation: whenever
  \<open>hide_elevation\<close> runs, it is the elevation if the shadow is shown and the
  negated elevation if it is hidden, and the quad is resized with that value.
\<close>

theorem quad_size_effective_elevation:
  assumes "rect s = Some r" and "rcontext s = Some c"
  shows "(\<exists>s' r'. on_size s = Inr s' \<and> rect s' = Some r'
            \<and> rect_size r' = (fst (size_w s) + u_elevation s * shadow_softness s / 2,
                               snd (size_w s) + u_elevation s * shadow_softness s / 2))
       \<and> (\<exists>s' r'. hide_elevation hide s = Inr s' \<and> rect s' = Some r'
            \<and> u_elevation s' = (if hide then - elevation s else elevation s)
            \<and> rect_size r' = (fst (size_w s) + u_elevation s' * shadow_softness s / 2,
                               snd (size_w s) + u_elevation s' * shadow_softness s / 2))"
  using assms by (simp add: elev_defs Let_def)

theorem quad_size_effective_elevation_witness:
  "rect elevated_card = Some \<lparr> rect_pos = (0, 0), rect_size = (100, 100) \<rparr>
   \<and> rcontext elevated_card = Some \<lparr> use_parent_modelview = False, uniforms = Map.empty \<rparr>
   \<and> (\<exists>s' r'. on_size elevated_card = Inr s' \<and> rect s' = Some r'
          \<and> rect_size r' = (100, 100))
   \<and> (\<exists>s' r'. hide_elevation False elevated_card = Inr s' \<and> rect s' = Some r'
          \<and> u_elevation s' = 4 \<and> rect_size r' = (124, 124))"
proof -
  have e: "elevation elevated_card = 4" "u_elevation elevated_card = 0"
    "shadow_softness elevated_card = 12" "size_w elevated_card = (100, 100)"
    by (simp_all add: elevated_card_def on_elevation_def schedule_once_def init_def
        class_defaults_def)
  show ?thesis
    using quad_size_effective_elevation
            [OF elevated_card_initialised(1) elevated_card_initialised(2), of False]
    by (auto simp: e elevated_card_initialised)
qed

text \<open>
  C3 as stated fails: the card of size 100 by 100 with elevation 4 and softness
  12, shown and then disabled, has a shadow quad of 76 by 76 after a size
  change, not of 124 by 124.
\<close>

theorem quad_size_counterexample:
  "elevation elevated_card = 4 \<and> shadow_softness elevated_card = 12
   \<and> size_w elevated_card = (100, 100)
   \<and> quad_size (then_do (then_do (clock_tick elevated_card) (set_disabled True)) on_size)
       = Some (76, 76)"
  by (simp add: elev_defs tick_defs set_disabled_def elevated_card_def quad_size_def Let_def)

text \<open>
  C4. The corner-radius remap of \<open>on_radius\<close> is the fixed permutation that
  takes the host radii \<open>[a, b, c, d]\<close> (top-left, top-right, bottom-right,
  bottom-left) to the shadow radii \<open>[b, c, a, d]\<close>, for every four-value list,
  and it does not raise.
\<close>

theorem on_radius_permutation:
  "\<exists>s'. on_radius [a, b, c, d] s = Inr s' \<and> shadow_radius s' = [b, c, a, d]"
  by (simp add: on_radius_def subscript_def then_do_def set_shadow_radius_def
      on_shadow_radius_def schedule_once_def)




text \<open>
  C9. Assigning a negative value to \<open>elevation\<close> does not raise; the value
  stored is the minimum bound 0.
\<close>

theorem negative_elevation_clamped:
  "v < 0 \<Longrightarrow> \<exists>s'. set_elevation v s = Inr s' \<and> elevation s' = 0"
  by (simp add: set_elevation_def bounded_set_def bounded_check_def elevation_property_def
      on_elevation_def schedule_once_def)

theorem negative_elevation_clamped_witness:
  "(- 3 :: rat) < 0 \<and> (\<exists>s'. set_elevation (- 3) elevated_card = Inr s' \<and> elevation s' = 0)"
  using negative_elevation_clamped [of "- 3" elevated_card] by simp

section \<open>Properties of the chip\<close>

text \<open>
  C6. Setting \<open>active\<close> from false to true starts exactly one pair of
  animations, the background colour of the left icon's box to alpha 0.4 and the
  check icon's scale to 1; setting it from true to false starts exactly one
  pair, to alpha 0 and scale 0; all four run for 0.1 s with the \<open>out_sine\<close>
  curve. A long touch on a chip with no left icon changes nothing: \<open>active\<close>
  keeps its value and no animation starts.
\<close>

theorem chip_toggle_animations:
  "(\<not> active s1 \<longrightarrow>
      set_active True s1 =
        s1\<lparr> active := True,
            started := started s1 @
              [(\<lparr> anim_props = [(''md_bg_color'', Color [0, 0, 0, 4 / 10])],
                  anim_t = ''out_sine'', anim_d = 1 / 10 \<rparr>, icon_left_box),
               (\<lparr> anim_props = [(''scale_value_x'', Scalar 1), (''scale_value_y'', Scalar 1),
                                 (''scale_value_z'', Scalar 1)],
                  anim_t = ''out_sine'', anim_d = 1 / 10 \<rparr>, check_icon)] \<rparr>)
   \<and> (active s2 \<longrightarrow>
      set_active False s2 =
        s2\<lparr> active := False,
            started := started s2 @
              [(\<lparr> anim_props = [(''md_bg_color'', Color [0, 0, 0, 0])],
                  anim_t = ''out_sine'', anim_d = 1 / 10 \<rparr>, icon_left_box),
               (\<lparr> anim_props = [(''scale_value_x'', Scalar 0), (''scale_value_y'', Scalar 0),
                                 (''scale_value_z'', Scalar 0)],
                  anim_t = ''out_sine'', anim_d = 1 / 10 \<rparr>, check_icon)] \<rparr>)
   \<and> (icon_left s3 = [] \<longrightarrow> on_long_touch s3 = s3)"
  by (simp add: set_active_def on_active_def do_animation_check_def on_long_touch_def)

theorem chip_toggle_animations_witness:
  "\<not> active plain_chip
   \<and> set_active True plain_chip =
        \<lparr> icon_left = [], active = True,
          started =
              [(\<lparr> anim_props = [(''md_bg_color'', Color [0, 0, 0, 4 / 10])],
                  anim_t = ''out_sine'', anim_d = 1 / 10 \<rparr>, icon_left_box),
               (\<lparr> anim_props = [(''scale_value_x'', Scalar 1), (''scale_value_y'', Scalar 1),
                                 (''scale_value_z'', Scalar 1)],
                  anim_t = ''out_sine'', anim_d = 1 / 10 \<rparr>, check_icon)] \<rparr>
   \<and> active marked_chip
   \<and> set_active False marked_chip =
        \<lparr> icon_left = ''map-marker'', active = False,
          started =
              [(\<lparr> anim_props = [(''md_bg_color'', Color [0, 0, 0, 0])],
                  anim_t = ''out_sine'', anim_d = 1 / 10 \<rparr>, icon_left_box),
               (\<lparr> anim_props = [(''scale_value_x'', Scalar 0), (''scale_value_y'', Scalar 0),
                                 (''scale_value_z'', Scalar 0)],
                  anim_t = ''out_sine'', anim_d = 1 / 10 \<rparr>, check_icon)] \<rparr>
   \<and> icon_left plain_chip = []
   \<and> on_long_touch plain_chip = plain_chip"
  using chip_toggle_animations [of plain_chip marked_chip plain_chip]
  by (simp add: plain_chip_def marked_chip_def)

text \<open>
  C7. When a touch collides with an active chip, the superclass handler is
  called on the chip after \<open>active\<close> has been set to false: it receives a chip
  that is no longer active.
\<close>

theorem touch_deactivates_before_delegation:
  "collide_point s (touch_pos touch) \<Longrightarrow> active s \<Longrightarrow>
     on_touch_down collide_point super_on_touch_down touch s
       = super_on_touch_down touch (set_active False s)
     \<and> \<not> active (set_active False s)"
  by (simp add: on_touch_down_def set_active_def on_active_def do_animation_check_def)

theorem touch_deactivates_before_delegation_witness:
  "chip_bounds marked_chip (touch_pos \<lparr> touch_pos = (10, 10) \<rparr>) \<and> active marked_chip
   \<and> on_touch_down chip_bounds button_press \<lparr> touch_pos = (10, 10) \<rparr> marked_chip
       = button_press \<lparr> touch_pos = (10, 10) \<rparr> (set_active False marked_chip)
   \<and> \<not> active (set_active False marked_chip)"
  using touch_deactivates_before_delegation
          [of chip_bounds marked_chip "\<lparr> touch_pos = (10, 10) \<rparr>" button_press]
  by (simp add: chip_bounds_def marked_chip_def)

text \<open>
  C10. When a touch does not collide with the chip, \<open>on_touch_down\<close> returns
  \<open>None\<close> and leaves the chip as it was, whatever the superclass handler is:
  the handler is not called.
\<close>

theorem touch_outside_ignored:
  "\<not> collide_point s (touch_pos touch) \<Longrightarrow>
     on_touch_down collide_point super_on_touch_down touch s = (None, s)"
  by (simp add: on_touch_down_def)

theorem touch_outside_ignored_witness:
  "\<not> chip_bounds marked_chip (touch_pos \<lparr> touch_pos = (300, 10) \<rparr>)
   \<and> on_touch_down chip_bounds button_press \<lparr> touch_pos = (300, 10) \<rparr> marked_chip
       = (None, marked_chip)"
  using touch_outside_ignored
          [of chip_bounds marked_chip "\<lparr> touch_pos = (300, 10) \<rparr>" button_press]
  by (simp add: chip_bounds_def marked_chip_def)

end
